theory Spec2Isabelle
  imports Complex_Main
begin

section \<open>JavaScript numbers\<close>

text \<open>
  A JavaScript \<open>number\<close> is a finite value, one of the two infinities, or \<open>NaN\<close>.
  Finite values are taken as exact reals: rounding to binary64, overflow to an
  infinity and the sign of zero are not part of this model. The special values are part
  of it, because the code tests for them (\<open>isNaN\<close>, \<open>||\<close>, \<open>!\<close>) and divides by
  amounts that may be zero.
\<close>

datatype jsnum = NaN | PInf | NInf | Fin real

fun jneg :: "jsnum \<Rightarrow> jsnum" where
  "jneg NaN = NaN"
| "jneg PInf = NInf"
| "jneg NInf = PInf"
| "jneg (Fin a) = Fin (- a)"

fun jadd :: "jsnum \<Rightarrow> jsnum \<Rightarrow> jsnum" where
  "jadd NaN _ = NaN"
| "jadd _ NaN = NaN"
| "jadd PInf NInf = NaN"
| "jadd NInf PInf = NaN"
| "jadd PInf _ = PInf"
| "jadd _ PInf = PInf"
| "jadd NInf _ = NInf"
| "jadd _ NInf = NInf"
| "jadd (Fin a) (Fin b) = Fin (a + b)"

definition jsub :: "jsnum \<Rightarrow> jsnum \<Rightarrow> jsnum" where
  "jsub a b = jadd a (jneg b)"

text \<open>The sign of a number that is not \<open>NaN\<close>, zero counting as positive.\<close>

fun nonneg :: "jsnum \<Rightarrow> bool" where
  "nonneg PInf = True"
| "nonneg (Fin a) = (0 \<le> a)"
| "nonneg _ = False"

definition signed_inf :: "bool \<Rightarrow> jsnum" where
  "signed_inf pos = (if pos then PInf else NInf)"

fun jmul :: "jsnum \<Rightarrow> jsnum \<Rightarrow> jsnum" where
  "jmul NaN _ = NaN"
| "jmul _ NaN = NaN"
| "jmul (Fin a) (Fin b) = Fin (a * b)"
| "jmul (Fin a) b = (if a = 0 then NaN else signed_inf ((0 < a) = nonneg b))"
| "jmul a (Fin b) = (if b = 0 then NaN else signed_inf (nonneg a = (0 < b)))"
| "jmul a b = signed_inf (nonneg a = nonneg b)"

fun jdiv :: "jsnum \<Rightarrow> jsnum \<Rightarrow> jsnum" where
  "jdiv NaN _ = NaN"
| "jdiv _ NaN = NaN"
| "jdiv (Fin a) (Fin b) =
     (if b \<noteq> 0 then Fin (a / b)
      else if a = 0 then NaN else signed_inf (0 < a))"
| "jdiv (Fin a) _ = Fin 0"
| "jdiv a (Fin b) = signed_inf (nonneg a = (0 \<le> b))"
| "jdiv _ _ = NaN"

text \<open>Comparisons: every comparison with \<open>NaN\<close> is false.\<close>

fun jlt :: "jsnum \<Rightarrow> jsnum \<Rightarrow> bool" where
  "jlt NaN _ = False"
| "jlt _ NaN = False"
| "jlt (Fin a) (Fin b) = (a < b)"
| "jlt PInf _ = False"
| "jlt _ NInf = False"
| "jlt _ _ = True"

definition jgt :: "jsnum \<Rightarrow> jsnum \<Rightarrow> bool" where
  "jgt a b = jlt b a"

fun jle :: "jsnum \<Rightarrow> jsnum \<Rightarrow> bool" where
  "jle NaN _ = False"
| "jle _ NaN = False"
| "jle a b = (\<not> jlt b a)"

text \<open>\<open>Math.min\<close> and \<open>Math.max\<close> of two arguments.\<close>

definition Math_min :: "jsnum \<Rightarrow> jsnum \<Rightarrow> jsnum" where
  "Math_min a b = (if a = NaN \<or> b = NaN then NaN else if jlt b a then b else a)"

definition Math_max :: "jsnum \<Rightarrow> jsnum \<Rightarrow> jsnum" where
  "Math_max a b = (if a = NaN \<or> b = NaN then NaN else if jlt a b then b else a)"

definition isNaN :: "jsnum \<Rightarrow> bool" where
  "isNaN a = (a = NaN)"

text \<open>Truthiness of a number: \<open>0\<close> and \<open>NaN\<close> are falsy.\<close>

definition truthy :: "jsnum \<Rightarrow> bool" where
  "truthy a = (a \<noteq> NaN \<and> a \<noteq> Fin 0)"

text \<open>\<open>x || d\<close> for a number that may be \<open>undefined\<close> (\<open>None\<close>).\<close>

definition num_or :: "jsnum option \<Rightarrow> jsnum \<Rightarrow> jsnum" where
  "num_or x d = (case x of None \<Rightarrow> d | Some a \<Rightarrow> if truthy a then a else d)"

text \<open>\<open>s || d\<close> for a string that may be \<open>undefined\<close>: the empty string is falsy.\<close>

definition str_or :: "string option \<Rightarrow> string \<Rightarrow> string" where
  "str_or x d = (case x of None \<Rightarrow> d | Some s \<Rightarrow> if s = [] then d else s)"

section \<open>constants.ts: the currency normalizer\<close>

definition EXCHANGE_RATES_TO_USD :: "(string \<times> jsnum) list" where
  "EXCHANGE_RATES_TO_USD =
    [(''USD'', Fin 1), (''EUR'', Fin 1.08), (''GBP'', Fin 1.27), (''INR'', Fin 0.012),
     (''JPY'', Fin 0.0067), (''CAD'', Fin 0.74), (''AUD'', Fin 0.66), (''CNY'', Fin 0.14),
     (''SGD'', Fin 0.74), (''CHF'', Fin 1.13), (''HKD'', Fin 0.13), (''NZD'', Fin 0.61),
     (''SEK'', Fin 0.096), (''KRW'', Fin 0.00075), (''MXN'', Fin 0.059), (''BRL'', Fin 0.20),
     (''RUB'', Fin 0.011), (''ZAR'', Fin 0.053), (''TRY'', Fin 0.031), (''AED'', Fin 0.27),
     (''SAR'', Fin 0.27)]"

text \<open>
  The rate table is an object literal, and \<open>EXCHANGE_RATES_TO_USD[code]\<close> is a property
  read: it finds the table's own entries and, through the prototype, the properties that
  every object inherits from \<open>Object.prototype\<close>, which are functions (for \<open>__proto__\<close>
  an object). A property read so gives a number, such a non-number, or \<open>undefined\<close>.
\<close>

datatype jsval = JSUndefined | JSNumber jsnum | JSObject

definition Object_prototype_keys :: "string list" where
  "Object_prototype_keys =
    [''constructor'', ''hasOwnProperty'', ''isPrototypeOf'', ''propertyIsEnumerable'',
     ''toLocaleString'', ''toString'', ''valueOf'', ''__proto__'', ''__defineGetter__'',
     ''__defineSetter__'', ''__lookupGetter__'', ''__lookupSetter__'']"

definition rate_property :: "string \<Rightarrow> jsval" where
  "rate_property code =
     (case map_of EXCHANGE_RATES_TO_USD code of
        Some r \<Rightarrow> JSNumber r
      | None \<Rightarrow> if code \<in> set Object_prototype_keys then JSObject else JSUndefined)"

text \<open>\<open>v || d\<close>: functions and objects are truthy.\<close>

definition val_or :: "jsval \<Rightarrow> jsnum \<Rightarrow> jsval" where
  "val_or v d =
     (case v of
        JSUndefined \<Rightarrow> JSNumber d
      | JSNumber a \<Rightarrow> if truthy a then JSNumber a else JSNumber d
      | JSObject \<Rightarrow> JSObject)"

text \<open>
  The conversion of an operand of \<open>*\<close> and \<open>/\<close> to a number: a function or a plain object
  becomes \<open>NaN\<close>.
\<close>

definition ToNumber :: "jsval \<Rightarrow> jsnum" where
  "ToNumber v = (case v of JSUndefined \<Rightarrow> NaN | JSNumber a \<Rightarrow> a | JSObject \<Rightarrow> NaN)"

definition convertCurrency :: "jsnum \<Rightarrow> string \<Rightarrow> string \<Rightarrow> jsnum" where
  "convertCurrency amount fromCurrency toCurrency =
     (if fromCurrency = toCurrency then amount
      else
        let fromRate = val_or (rate_property fromCurrency) (Fin 1);
            toRate = val_or (rate_property toCurrency) (Fin 1);
            inUSD = jmul amount (ToNumber fromRate)
        in jdiv inUSD (ToNumber toRate))"

text \<open>The rate the specification gives a code: its table entry, and 1 when it has none.\<close>

definition table_rate :: "string \<Rightarrow> jsnum" where
  "table_rate c = (case map_of EXCHANGE_RATES_TO_USD c of None \<Rightarrow> Fin 1 | Some r \<Rightarrow> r)"

section \<open>types.ts: the data model\<close>

record Expense =
  expense_id :: string
  name :: string
  amount :: jsnum
  category :: string
  date :: string
  currency :: "string option"

record Income =
  grossAnnualSalary :: jsnum
  otherIncome :: jsnum

record SavingsGoal =
  goal_id :: string
  goal_name :: string
  targetAmount :: jsnum
  savedAmount :: jsnum
  deadline :: string
  goal_category :: "string option"
  icon :: string
  color :: string

record FinancialProfile =
  income :: Income
  expenses :: "Expense list"
  profile_currency :: string
  language :: string
  budgets :: "string \<rightharpoonup> jsnum"
  categories :: "string list"
  goals :: "SavingsGoal list"

section \<open>Dashboard: totals in the display currency\<close>

text \<open>
  \<open>curr.currency || profile.currency\<close>, converted into \<open>profile.currency\<close>: the
  argument of every \<open>reduce\<close> of the dashboard.
\<close>

definition amountInBase :: "FinancialProfile \<Rightarrow> Expense \<Rightarrow> jsnum" where
  "amountInBase profile cur =
     convertCurrency (amount cur) (str_or (currency cur) (profile_currency profile))
       (profile_currency profile)"

definition Dashboard_totalMonthlyExpenses :: "FinancialProfile \<Rightarrow> jsnum" where
  "Dashboard_totalMonthlyExpenses profile =
     foldl (\<lambda>acc cur. jadd acc (amountInBase profile cur)) (Fin 0) (expenses profile)"

definition Dashboard_monthlySavings :: "FinancialProfile \<Rightarrow> jsnum" where
  "Dashboard_monthlySavings profile =
     jsub (jadd (jdiv (grossAnnualSalary (income profile)) (Fin 12))
                (jdiv (otherIncome (income profile)) (Fin 12)))
          (Dashboard_totalMonthlyExpenses profile)"

definition Dashboard_spent :: "FinancialProfile \<Rightarrow> string \<Rightarrow> jsnum" where
  "Dashboard_spent profile cat =
     foldl (\<lambda>sum e. jadd sum (amountInBase profile e)) (Fin 0)
       (filter (\<lambda>e. category e = cat) (expenses profile))"

text \<open>\<open>budget > 0 ? (spent / budget) * 100 : 0\<close>, the expression both screens use.\<close>

definition percentage :: "jsnum \<Rightarrow> jsnum \<Rightarrow> jsnum" where
  "percentage spent budget =
     (if jgt budget (Fin 0) then jmul (jdiv spent budget) (Fin 100) else Fin 0)"

definition budget_of :: "FinancialProfile \<Rightarrow> string \<Rightarrow> jsnum" where
  "budget_of profile cat = num_or (budgets profile cat) (Fin 0)"

definition Dashboard_percentage :: "FinancialProfile \<Rightarrow> string \<Rightarrow> jsnum" where
  "Dashboard_percentage profile cat =
     percentage (Dashboard_spent profile cat) (budget_of profile cat)"

section \<open>ExpensesSheet: the budget manager\<close>

definition ExpensesSheet_spent :: "FinancialProfile \<Rightarrow> string \<Rightarrow> jsnum" where
  "ExpensesSheet_spent profile cat =
     foldl (\<lambda>sum e. jadd sum (amount e)) (Fin 0)
       (filter (\<lambda>e. category e = cat) (expenses profile))"

definition ExpensesSheet_percentage :: "FinancialProfile \<Rightarrow> string \<Rightarrow> jsnum" where
  "ExpensesSheet_percentage profile cat =
     percentage (ExpensesSheet_spent profile cat) (budget_of profile cat)"

section \<open>PlanningTools: savings, the tax estimator and goals\<close>

definition monthlyGross :: "FinancialProfile \<Rightarrow> jsnum" where
  "monthlyGross profile =
     jadd (jdiv (grossAnnualSalary (income profile)) (Fin 12))
          (jdiv (otherIncome (income profile)) (Fin 12))"

definition PlanningTools_totalMonthlyExpenses :: "FinancialProfile \<Rightarrow> jsnum" where
  "PlanningTools_totalMonthlyExpenses profile =
     foldl (\<lambda>acc cur. jadd acc (amount cur)) (Fin 0) (expenses profile)"

definition monthlySavings :: "FinancialProfile \<Rightarrow> jsnum" where
  "monthlySavings profile =
     Math_max (Fin 0) (jsub (monthlyGross profile) (PlanningTools_totalMonthlyExpenses profile))"

record TaxInput =
  salary :: jsnum
  other :: jsnum

definition simulatedAnnualIncome :: "TaxInput \<Rightarrow> jsnum" where
  "simulatedAnnualIncome taxInput =
     jadd (num_or (Some (salary taxInput)) (Fin 0)) (num_or (Some (other taxInput)) (Fin 0))"

text \<open>
  The three \<open>if\<close> statements of the estimator, in the source's order; each takes the pair
  \<open>(tax, remainingIncome)\<close> and returns it updated.
\<close>

definition bracket80 :: "jsnum \<times> jsnum \<Rightarrow> jsnum \<times> jsnum" where
  "bracket80 st = (case st of (tax, remainingIncome) \<Rightarrow>
     if jgt remainingIncome (Fin 80000)
     then (jadd tax (jmul (jsub remainingIncome (Fin 80000)) (Fin 0.30)), Fin 80000)
     else (tax, remainingIncome))"

definition bracket40 :: "jsnum \<times> jsnum \<Rightarrow> jsnum \<times> jsnum" where
  "bracket40 st = (case st of (tax, remainingIncome) \<Rightarrow>
     if jgt remainingIncome (Fin 40000)
     then (jadd tax (jmul (jsub remainingIncome (Fin 40000)) (Fin 0.20)), Fin 40000)
     else (tax, remainingIncome))"

definition bracket10 :: "jsnum \<times> jsnum \<Rightarrow> jsnum \<times> jsnum" where
  "bracket10 st = (case st of (tax, remainingIncome) \<Rightarrow>
     if jgt remainingIncome (Fin 10000)
     then (jadd tax (jmul (jsub remainingIncome (Fin 10000)) (Fin 0.10)), remainingIncome)
     else (tax, remainingIncome))"

definition tax :: "TaxInput \<Rightarrow> jsnum" where
  "tax taxInput = fst (bracket10 (bracket40 (bracket80 (Fin 0, simulatedAnnualIncome taxInput))))"

definition netAnnual :: "TaxInput \<Rightarrow> jsnum" where
  "netAnnual taxInput = jsub (simulatedAnnualIncome taxInput) (tax taxInput)"

definition effectiveRate :: "TaxInput \<Rightarrow> jsnum" where
  "effectiveRate taxInput =
     (if jgt (simulatedAnnualIncome taxInput) (Fin 0)
      then jmul (jdiv (tax taxInput) (simulatedAnnualIncome taxInput)) (Fin 100)
      else Fin 0)"

section \<open>auditService: the bounded audit log\<close>

record AuditLogEntry =
  timestamp :: string
  action :: string
  details :: "string option"

text \<open>
  What \<open>localStorage\<close> holds under the log's key: nothing (or the empty string, which
  is falsy too), the JSON text of an array of entries, or a text that \<open>JSON.parse\<close> or the
  spread of its value rejects.
\<close>

datatype stored_log = NoItem | Logs "AuditLogEntry list" | Unreadable

text \<open>
  \<open>logAction\<close>: the body of the \<open>try\<close> block, with the time of the call as argument.
  On an unreadable item the exception is caught and nothing is written.
\<close>

definition logAction :: "string \<Rightarrow> string \<Rightarrow> string option \<Rightarrow> stored_log \<Rightarrow> stored_log" where
  "logAction now act det item =
     (let newEntry = \<lparr>timestamp = now, action = act, details = det\<rparr> in
      case item of
        NoItem \<Rightarrow> Logs (take 100 (newEntry # []))
      | Logs logs \<Rightarrow> Logs (take 100 (newEntry # logs))
      | Unreadable \<Rightarrow> Unreadable)"


definition clearAuditLogs :: "stored_log \<Rightarrow> stored_log" where
  "clearAuditLogs item = NoItem"


section \<open>PlanningTools: savings goals\<close>

text \<open>The form state \<open>newGoal\<close>, a \<open>Partial<SavingsGoal>\<close>: every field may be undefined.\<close>

record NewGoal =
  new_name :: "string option"
  new_targetAmount :: "jsnum option"
  new_savedAmount :: "jsnum option"
  new_deadline :: "string option"
  new_category :: "string option"

record PlanningState =
  profile :: FinancialProfile
  newGoal :: NewGoal
  isAddingGoal :: bool
  auditLog :: stored_log

text \<open>\<open>Number(x)\<close> of a number that may be undefined.\<close>

definition Number :: "jsnum option \<Rightarrow> jsnum" where
  "Number x = (case x of None \<Rightarrow> NaN | Some a \<Rightarrow> a)"

definition GOAL_CATEGORIES :: "(string \<times> string) list" where
  "GOAL_CATEGORIES =
    [(''Emergency'', ''bg-red-500''), (''Travel'', ''bg-blue-500''), (''Home'', ''bg-indigo-500''),
     (''Vehicle'', ''bg-orange-500''), (''Education'', ''bg-green-500''),
     (''Gadget'', ''bg-purple-500''), (''Investment'', ''bg-teal-500''), (''Other'', ''bg-gray-500'')]"

definition categoryDef_color :: "string option \<Rightarrow> string" where
  "categoryDef_color cat =
     (case find (\<lambda>c. Some (fst c) = cat) GOAL_CATEGORIES of
        Some c \<Rightarrow> snd c
      | None \<Rightarrow> snd (GOAL_CATEGORIES ! 7))"

definition emptyGoal :: NewGoal where
  "emptyGoal = \<lparr>new_name = Some [], new_targetAmount = Some (Fin 0),
     new_savedAmount = Some (Fin 0), new_deadline = Some [], new_category = Some ''Other''\<rparr>"

text \<open>
  \<open>handleAddGoal\<close>, with the component's optional \<open>setProfile\<close> prop as a flag and the
  clock readings as arguments (\<open>Date.now().toString()\<close> and the log's time stamp).
\<close>

definition handleAddGoal :: "bool \<Rightarrow> string \<Rightarrow> string \<Rightarrow> PlanningState \<Rightarrow> PlanningState" where
  "handleAddGoal setProfile nowId nowIso st =
     (let ng = newGoal st in
      if str_or (new_name ng) [] = [] \<or> \<not> truthy (Number (new_targetAmount ng)) \<or> \<not> setProfile
      then st
      else
        let goal = \<lparr>goal_id = nowId,
                    goal_name = str_or (new_name ng) [],
                    targetAmount = Number (new_targetAmount ng),
                    savedAmount = num_or (Some (Number (new_savedAmount ng))) (Fin 0),
                    deadline = str_or (new_deadline ng) [],
                    goal_category = new_category ng,
                    icon = str_or (new_category ng) ''Other'',
                    color = categoryDef_color (new_category ng)\<rparr>
        in st\<lparr>profile := (profile st)\<lparr>goals := goals (profile st) @ [goal]\<rparr>,
              auditLog := logAction nowIso ''GOAL_ADDED'' (Some (''Added goal: '' @ goal_name goal))
                            (auditLog st),
              isAddingGoal := False,
              newGoal := emptyGoal\<rparr>)"

definition handleUpdateGoalProgress ::
  "bool \<Rightarrow> string \<Rightarrow> jsnum \<Rightarrow> FinancialProfile \<Rightarrow> FinancialProfile" where
  "handleUpdateGoalProgress setProfile gid amt prev =
     (if \<not> setProfile then prev
      else prev\<lparr>goals := map (\<lambda>g. if goal_id g = gid then g\<lparr>savedAmount := amt\<rparr> else g)
                              (goals prev)\<rparr>)"

text \<open>
  A quick-add button of a goal card: \<open>handleUpdateGoalProgress(goal.id, goal.savedAmount + step)\<close>,
  where the step is 100 on one button and 500 on the other.
\<close>

definition quickAdd :: "bool \<Rightarrow> jsnum \<Rightarrow> SavingsGoal \<Rightarrow> FinancialProfile \<Rightarrow> FinancialProfile" where
  "quickAdd setProfile step goal prev =
     handleUpdateGoalProgress setProfile (goal_id goal) (jadd (savedAmount goal) step) prev"

definition progress :: "SavingsGoal \<Rightarrow> jsnum" where
  "progress goal =
     Math_min (jmul (jdiv (savedAmount goal) (targetAmount goal)) (Fin 100)) (Fin 100)"

text \<open>
  A \<open>Date\<close> as far as the code reads it: its local year and month (0 to 11), or the
  invalid date, whose getters return \<open>NaN\<close>.
\<close>

datatype JSDate = InvalidDate | LocalDate int int

fun getFullYear :: "JSDate \<Rightarrow> jsnum" where
  "getFullYear InvalidDate = NaN"
| "getFullYear (LocalDate y m) = Fin (of_int y)"

fun getMonth :: "JSDate \<Rightarrow> jsnum" where
  "getMonth InvalidDate = NaN"
| "getMonth (LocalDate y m) = Fin (of_int m)"

text \<open>
  \<open>new Date(deadline)\<close>. The form's date input gives the deadline as \<open>YYYY-MM-DD\<close>; a
  date-only string of that form is read as midnight UTC, and \<open>getFullYear\<close> and \<open>getMonth\<close>
  then give the local year and month of that instant. With the local time \<open>tz\<close> minutes
  ahead of UTC (less than a day either way), the local day is the written day when
  \<open>tz\<close> is not negative and the day before it otherwise, which for the first of a month
  lies in the month before. What the constructor makes of any other string is left to the
  argument \<open>legacy\<close>.
\<close>

definition digit_of :: "char \<Rightarrow> nat option" where
  "digit_of c =
     (let n = (of_char c :: nat) in if 48 \<le> n \<and> n \<le> 57 then Some (n - 48) else None)"

fun number_from :: "nat \<Rightarrow> string \<Rightarrow> nat option" where
  "number_from n [] = Some n"
| "number_from n (c # cs) =
     (case digit_of c of None \<Rightarrow> None | Some d \<Rightarrow> number_from (10 * n + d) cs)"

definition leap_year :: "nat \<Rightarrow> bool" where
  "leap_year y = (if y mod 100 = 0 then y mod 400 = 0 else y mod 4 = 0)"

definition daysInMonth :: "nat \<Rightarrow> nat \<Rightarrow> nat" where
  "daysInMonth y m =
     (if m = 2 then (if leap_year y then 29 else 28)
      else if m \<in> set [4, 6, 9, 11] then 30 else 31)"

definition parse_iso_date :: "string \<Rightarrow> (nat \<times> nat \<times> nat) option" where
  "parse_iso_date s =
     (if length s = 10 \<and> s ! 4 = CHR ''-'' \<and> s ! 7 = CHR ''-''
      then (case number_from 0 (take 4 s) of
              None \<Rightarrow> None
            | Some y \<Rightarrow>
               (case number_from 0 (take 2 (drop 5 s)) of
                  None \<Rightarrow> None
                | Some m \<Rightarrow>
                   (case number_from 0 (drop 8 s) of
                      None \<Rightarrow> None
                    | Some d \<Rightarrow>
                        if 1 \<le> m \<and> m \<le> 12 \<and> 1 \<le> d \<and> d \<le> daysInMonth y m
                        then Some (y, m, d) else None)))
      else None)"

definition new_Date :: "int \<Rightarrow> (string \<Rightarrow> JSDate) \<Rightarrow> string \<Rightarrow> JSDate" where
  "new_Date tz legacy s =
     (case parse_iso_date s of
        None \<Rightarrow> legacy s
      | Some (y, m, d) \<Rightarrow>
          if tz < 0 \<and> d = 1
          then (if m = 1 then LocalDate (int y - 1) 11 else LocalDate (int y) (int m - 2))
          else LocalDate (int y) (int m - 1))"

text \<open>
  \<open>calculateMonthlyNeed\<close>, with the offset of the local time, the constructor's reading of
  other strings and the current date (\<open>new Date()\<close>, read in local time) as arguments.
\<close>

definition calculateMonthlyNeed ::
  "int \<Rightarrow> (string \<Rightarrow> JSDate) \<Rightarrow> JSDate \<Rightarrow> jsnum \<Rightarrow> jsnum \<Rightarrow> string \<Rightarrow> jsnum" where
  "calculateMonthlyNeed tz legacy today target saved dl =
     (if dl = [] then Fin 0
      else
        let end = new_Date tz legacy dl;
            months = jadd (jmul (jsub (getFullYear end) (getFullYear today)) (Fin 12))
                          (jsub (getMonth end) (getMonth today))
        in if jle months (Fin 0) then Fin 0
           else let remaining = Math_max (Fin 0) (jsub target saved)
                in jdiv remaining months)"

text \<open>The month count of the specification: \<open>year * 12 + month\<close>, and its difference.\<close>

definition monthIndex :: "JSDate \<Rightarrow> jsnum" where
  "monthIndex d = jadd (jmul (getFullYear d) (Fin 12)) (getMonth d)"

definition monthsRemaining :: "JSDate \<Rightarrow> JSDate \<Rightarrow> jsnum" where
  "monthsRemaining today end = jsub (monthIndex end) (monthIndex today)"

text \<open>The deadline as the user wrote it: the year and month of the calendar date.\<close>

definition written_Date :: "string \<Rightarrow> JSDate" where
  "written_Date s =
     (case parse_iso_date s of
        None \<Rightarrow> InvalidDate
      | Some (y, m, d) \<Rightarrow> LocalDate (int y) (int m - 1))"

text \<open>
  The form filled in and saved several times: each entry is the form state at the click
  and the two clock readings of that call.
\<close>

definition submitGoals :: "bool \<Rightarrow> (NewGoal \<times> string \<times> string) list \<Rightarrow> PlanningState \<Rightarrow> PlanningState" where
  "submitGoals setProfile forms st =
     foldl (\<lambda>s (ng, nowId, nowIso). handleAddGoal setProfile nowId nowIso (s\<lparr>newGoal := ng\<rparr>)) st forms"

section \<open>Strings\<close>

text \<open>
  A string is a list of characters; a character stands for a code unit below 256. The
  functions below are the string methods the CSV code calls.
\<close>

definition dquote :: char where
  "dquote = CHR 0x22"

definition newline :: char where
  "newline = CHR 0x0A"

definition comma :: char where
  "comma = CHR '',''"

text \<open>The white space and line terminators that \<open>trim\<close> removes.\<close>

definition is_space :: "char \<Rightarrow> bool" where
  "is_space c = (c \<in> set [CHR 0x09, CHR 0x0A, CHR 0x0B, CHR 0x0C, CHR 0x0D, CHR 0x20, CHR 0xA0])"

definition trim :: "string \<Rightarrow> string" where
  "trim s = rev (dropWhile is_space (rev (dropWhile is_space s)))"

definition lower_char :: "char \<Rightarrow> char" where
  "lower_char c =
     (let n = (of_char c :: nat) in
      if (65 \<le> n \<and> n \<le> 90) \<or> (192 \<le> n \<and> n \<le> 222 \<and> n \<noteq> 215) then char_of (n + 32) else c)"

definition toLowerCase :: "string \<Rightarrow> string" where
  "toLowerCase s = map lower_char s"

fun startsWith :: "string \<Rightarrow> string \<Rightarrow> bool" where
  "startsWith s [] = True"
| "startsWith [] (p # ps) = False"
| "startsWith (c # cs) (p # ps) = (c = p \<and> startsWith cs ps)"

fun includes_str :: "string \<Rightarrow> string \<Rightarrow> bool" where
  "includes_str [] sub = (sub = [])"
| "includes_str (c # cs) sub = (startsWith (c # cs) sub \<or> includes_str cs sub)"

text \<open>
  \<open>split\<close>: the pieces between the separators. Whether a character is a separator may
  depend on the text after it, as it does for the regular expression of the import.
\<close>

fun split_at :: "(char \<Rightarrow> string \<Rightarrow> bool) \<Rightarrow> string \<Rightarrow> string list" where
  "split_at sep [] = [[]]"
| "split_at sep (c # cs) =
     (if sep c cs then [] # split_at sep cs
      else let r = split_at sep cs in (c # hd r) # tl r)"

text \<open>\<open>text.split('\n')\<close>.\<close>

definition split_lines :: "string \<Rightarrow> string list" where
  "split_lines text = split_at (\<lambda>c rest. c = newline) text"

text \<open>
  \<open>line.split(/,(?=(?:(?:[^"]*"){2})*[^"]*$)/)\<close>: a comma separates when the text after it,
  up to the end of the line, holds an even number of double quotes.
\<close>

definition field_sep :: "char \<Rightarrow> string \<Rightarrow> bool" where
  "field_sep c rest = (c = comma \<and> even (count_list rest dquote))"

definition split_fields :: "string \<Rightarrow> string list" where
  "split_fields line = split_at field_sep line"

fun join :: "string \<Rightarrow> string list \<Rightarrow> string" where
  "join sep [] = []"
| "join sep [x] = x"
| "join sep (x # y # ys) = x @ sep @ join sep (y # ys)"

text \<open>\<open>name.replace(/"/g, '""')\<close>.\<close>

definition double_quotes :: "string \<Rightarrow> string" where
  "double_quotes s = concat (map (\<lambda>c. if c = dquote then [dquote, dquote] else [c]) s)"

text \<open>\<open>s.replace(/^"|"$/g, '')\<close>: one quote off the front, then one off the end.\<close>

definition strip_quotes :: "string \<Rightarrow> string" where
  "strip_quotes s =
     (let s1 = (if s \<noteq> [] \<and> hd s = dquote then tl s else s)
      in if s1 \<noteq> [] \<and> last s1 = dquote then butlast s1 else s1)"

text \<open>\<open>s.replace(/""/g, '"')\<close>: pairs of quotes, from the left, become one quote.\<close>

fun undouble_quotes :: "string \<Rightarrow> string" where
  "undouble_quotes (a # b # cs) =
     (if a = dquote \<and> b = dquote then dquote # undouble_quotes cs
      else a # undouble_quotes (b # cs))"
| "undouble_quotes cs = cs"

text \<open>A natural number in a template literal: its decimal digits.\<close>

fun decimal :: "nat \<Rightarrow> string" where
  "decimal n = (if n < 10 then [char_of (48 + n)] else decimal (n div 10) @ [char_of (48 + n mod 10)])"

text \<open>\<open>xs[i]\<close>: undefined (\<open>None\<close>) out of range.\<close>

definition at_index :: "'a list \<Rightarrow> nat \<Rightarrow> 'a option" where
  "at_index xs i = (if i < length xs then Some (xs ! i) else None)"

section \<open>CSV export\<close>

text \<open>
  The conversion of a number to a string (in \<open>join\<close>) is the argument \<open>toStr\<close> of both
  exports. Each returns \<open>csvContent\<close>.
\<close>

definition csv_name :: "string \<Rightarrow> string" where
  "csv_name s = [dquote] @ double_quotes s @ [dquote]"

definition ExpensesSheet_handleExport :: "(jsnum \<Rightarrow> string) \<Rightarrow> FinancialProfile \<Rightarrow> string" where
  "ExpensesSheet_handleExport toStr p =
     (let headers = [''Date'', ''Description'', ''Category'', ''Amount'', ''Currency''];
          rows = map (\<lambda>e. [date e, csv_name (name e), category e, toStr (amount e),
                            str_or (currency e) (profile_currency p)]) (expenses p)
      in join [newline] (join [comma] headers # map (join [comma]) rows))"

definition Layout_handleExport :: "(jsnum \<Rightarrow> string) \<Rightarrow> FinancialProfile \<Rightarrow> string" where
  "Layout_handleExport toStr p =
     (let headers = [''Date'', ''Description'', ''Category'', ''Amount''];
          rows = map (\<lambda>e. [date e, csv_name (name e), category e, toStr (amount e)]) (expenses p)
      in join [newline] (join [comma] headers # map (join [comma]) rows))"

section \<open>CSV import of the expenses sheet\<close>

datatype error = TypeError

text \<open>
  The body of the import loop for one line: \<open>Inr None\<close> when the line adds nothing,
  \<open>Inr (Some e)\<close> when it pushes \<open>e\<close>, and \<open>Inl TypeError\<close> where a method would be called
  on an undefined array element. \<open>parseFloat\<close> and the fresh identifier are arguments.
\<close>

definition import_line ::
  "(string \<Rightarrow> jsnum) \<Rightarrow> string \<Rightarrow> string \<Rightarrow> string \<Rightarrow> error + Expense option" where
  "import_line parseFloat profileCurrency newId rawLine =
     (let line = trim rawLine in
      if line = [] then Inr None
      else
        let parts = split_fields line in
        if length parts \<ge> 4 then
          (case at_index parts 0 of
             None \<Rightarrow> Inl TypeError
           | Some p0 \<Rightarrow>
              (case at_index parts 1 of
                 None \<Rightarrow> Inl TypeError
               | Some p1 \<Rightarrow>
                  (case at_index parts 2 of
                     None \<Rightarrow> Inl TypeError
                   | Some p2 \<Rightarrow>
                      (let date' = trim p0;
                           name' = trim (undouble_quotes (strip_quotes p1));
                           category' = trim p2;
                           amount' = (case at_index parts 3 of
                                        None \<Rightarrow> NaN
                                      | Some p3 \<Rightarrow> parseFloat p3);
                           currency' = str_or (map_option trim (at_index parts 4)) profileCurrency
                       in if \<not> isNaN amount' \<and> date' \<noteq> []
                          then Inr (Some \<lparr>expense_id = newId, name = name', amount = amount',
                                          category = str_or (Some category') ''Other'',
                                          date = date', currency = Some currency'\<rparr>)
                          else Inr None))))
        else Inr None)"

text \<open>The loop over the remaining lines; \<open>newExpenses\<close> is the list pushed to so far.\<close>

fun import_loop ::
  "(string \<Rightarrow> jsnum) \<Rightarrow> string \<Rightarrow> (nat \<Rightarrow> string) \<Rightarrow> string list \<Rightarrow> Expense list
     \<Rightarrow> error + Expense list" where
  "import_loop parseFloat cur fresh [] newExpenses = Inr newExpenses"
| "import_loop parseFloat cur fresh (l # ls) newExpenses =
     (case import_line parseFloat cur (fresh (length newExpenses)) l of
        Inl err \<Rightarrow> Inl err
      | Inr None \<Rightarrow> import_loop parseFloat cur fresh ls newExpenses
      | Inr (Some e) \<Rightarrow> import_loop parseFloat cur fresh ls (newExpenses @ [e]))"

definition startIndex :: "string list \<Rightarrow> nat" where
  "startIndex lines =
     (case at_index lines 0 of
        None \<Rightarrow> 0
      | Some l \<Rightarrow> if includes_str (toLowerCase l) ''date'' then 1 else 0)"

definition parse_csv ::
  "(string \<Rightarrow> jsnum) \<Rightarrow> string \<Rightarrow> (nat \<Rightarrow> string) \<Rightarrow> string \<Rightarrow> error + Expense list" where
  "parse_csv parseFloat cur fresh text =
     (let lines = split_lines text
      in import_loop parseFloat cur fresh (drop (startIndex lines) lines) [])"




section \<open>Round trip: what export followed by import preserves\<close>

text \<open>
  A field that the import reads back as it was written: no comma, double quote or line
  break in it, and no white space at either end.
\<close>

definition csv_plain :: "string \<Rightarrow> bool" where
  "csv_plain s = (comma \<notin> set s \<and> dquote \<notin> set s \<and> newline \<notin> set s \<and> trim s = s)"

text \<open>
  An expense whose row survives the round trip, for given conversions between numbers
  and strings: the date is not empty, date, category and currency are plain fields, the
  category is not empty, the description has no line break and no white space at its ends,
  and the amount is a number whose string is a plain, non-empty field that parses back to
  it.
\<close>

definition round_trips :: "(jsnum \<Rightarrow> string) \<Rightarrow> (string \<Rightarrow> jsnum) \<Rightarrow> string \<Rightarrow> Expense \<Rightarrow> bool" where
  "round_trips toStr parseFloat cur e =
     (date e \<noteq> [] \<and> csv_plain (date e) \<and>
      newline \<notin> set (name e) \<and> trim (name e) = name e \<and>
      category e \<noteq> [] \<and> csv_plain (category e) \<and>
      amount e \<noteq> NaN \<and> parseFloat (toStr (amount e)) = amount e \<and>
      toStr (amount e) \<noteq> [] \<and> csv_plain (toStr (amount e)) \<and>
      csv_plain (str_or (currency e) cur))"

section \<open>Sample profiles\<close>

text \<open>
  A profile in US dollars with one expense of 100 euros in the category Food, and a
  monthly limit for that category.
\<close>

definition euro_lunch :: "jsnum \<Rightarrow> FinancialProfile" where
  "euro_lunch limit =
     \<lparr>income = \<lparr>grossAnnualSalary = Fin 60000, otherIncome = Fin 0\<rparr>,
      expenses = [\<lparr>expense_id = ''1'', name = ''Lunch'', amount = Fin 100, category = ''Food'',
                   date = ''2024-01-05'', currency = Some ''EUR''\<rparr>],
      profile_currency = ''USD'', language = ''en-US'', budgets = [''Food'' \<mapsto> limit],
      categories = [''Food''], goals = []\<rparr>"

text \<open>A goal 50 short of its target, a planning screen with no goals, and a filled form.\<close>

definition trip :: SavingsGoal where
  "trip = \<lparr>goal_id = ''1700000000000'', goal_name = ''Trip'', targetAmount = Fin 1000,
            savedAmount = Fin 950, deadline = [], goal_category = Some ''Travel'',
            icon = ''Travel'', color = ''bg-blue-500''\<rparr>"

definition blank_state :: PlanningState where
  "blank_state = \<lparr>profile = (euro_lunch (Fin 0)), newGoal = emptyGoal, isAddingGoal = True, auditLog = NoItem\<rparr>"

definition trip_form :: "jsnum \<Rightarrow> NewGoal" where
  "trip_form target = \<lparr>new_name = Some ''Trip'', new_targetAmount = Some target,
     new_savedAmount = Some (Fin 1000), new_deadline = Some [], new_category = Some ''Travel''\<rparr>"

text \<open>
  Number formatting and \<open>parseFloat\<close> on the two amounts of the sample data, a profile
  with a description that holds a comma and quotes, the same profile with one description
  that starts with a space, and a file with a non-numeric amount and an empty date.
\<close>

definition sample_toStr :: "jsnum \<Rightarrow> string" where
  "sample_toStr a = (if a = Fin 12.5 then ''12.5'' else if a = Fin 100 then ''100'' else ''NaN'')"

definition sample_parseFloat :: "string \<Rightarrow> jsnum" where
  "sample_parseFloat s = (if s = ''12.5'' then Fin 12.5 else if s = ''100'' then Fin 100 else NaN)"

definition cafe :: FinancialProfile where
  "cafe = \<lparr>income = \<lparr>grossAnnualSalary = Fin 60000, otherIncome = Fin 0\<rparr>,
      expenses = [\<lparr>expense_id = ''1'', name = [CHR ''a'', CHR '','', dquote, CHR ''b'', dquote],
                   amount = Fin 12.5, category = ''Food'', date = ''2024-01-05'',
                   currency = Some ''EUR''\<rparr>,
                  \<lparr>expense_id = ''2'', name = ''Rent'', amount = Fin 100, category = ''Housing'',
                   date = ''2024-01-06'', currency = None\<rparr>],
      profile_currency = ''USD'', language = ''en-US'', budgets = Map.empty,
      categories = [''Food'', ''Housing''], goals = []\<rparr>"

definition padded :: FinancialProfile where
  "padded = cafe\<lparr>expenses := [\<lparr>expense_id = ''2'', name = '' Rent'', amount = Fin 100,
                category = ''Housing'', date = ''2024-01-06'', currency = None\<rparr>]\<rparr>"



section \<open>Properties of the currency normalizer\<close>

lemma rates_truthy: "(c, r) \<in> set EXCHANGE_RATES_TO_USD \<Longrightarrow> truthy r"
  by (auto simp: EXCHANGE_RATES_TO_USD_def truthy_def)

lemma rate_property_own:
  "c \<notin> set Object_prototype_keys \<Longrightarrow>
     ToNumber (val_or (rate_property c) (Fin 1)) = table_rate c"
proof (cases "map_of EXCHANGE_RATES_TO_USD c")
  case None
  assume "c \<notin> set Object_prototype_keys"
  with None show ?thesis
    by (simp add: rate_property_def val_or_def ToNumber_def table_rate_def)
next
  case (Some r)
  then have "truthy r" using rates_truthy map_of_SomeD by fast
  with Some show ?thesis
    by (simp add: rate_property_def val_or_def ToNumber_def table_rate_def)
qed

text \<open>
  For codes that name no inherited property, three-letter currency codes among them,
  the function is what the specification says: the identity on equal codes, and
  \<open>amount * sourceRate / targetRate\<close> otherwise, with rate 1 for a code outside the table.
\<close>

lemma convertCurrency_own_codes:
  assumes "src \<notin> set Object_prototype_keys" and "tgt \<notin> set Object_prototype_keys"
  shows "convertCurrency a src tgt =
           (if src = tgt then a else jdiv (jmul a (table_rate src)) (table_rate tgt))"
  using assms by (simp add: convertCurrency_def rate_property_own Let_def)

lemma convertCurrency_same: "convertCurrency a c c = a"
  by (simp add: convertCurrency_def)

lemmas convertCurrency_eval =
  convertCurrency_def rate_property_def val_or_def ToNumber_def Object_prototype_keys_def
  table_rate_def truthy_def EXCHANGE_RATES_TO_USD_def

text \<open>
  C2. The claim: \<open>convertCurrency\<close> returns the amount unchanged on equal codes and
  \<open>amount * sourceRate / targetRate\<close> otherwise, a code absent from the rate table
  counting with rate 1. The code writes that fallback as \<open>|| 1\<close> on a property read of
  an object literal, and the read also finds inherited properties: \<open>constructor\<close> has
  no entry in the table, so the claim gives \<open>100 * 1 / 1 = 100\<close> for 100 from
  \<open>constructor\<close> to USD and \<open>100 * 1.08 / 1 = 108\<close> for 100 from EUR to \<open>__proto__\<close>, and
  the code returns \<open>NaN\<close> for both.
\<close>

theorem convertCurrency_inherited_key:
  "map_of EXCHANGE_RATES_TO_USD ''constructor'' = None \<and>
   jdiv (jmul (Fin 100) (table_rate ''constructor'')) (table_rate ''USD'') = Fin 100 \<and>
   convertCurrency (Fin 100) ''constructor'' ''USD'' = NaN \<and>
   map_of EXCHANGE_RATES_TO_USD ''__proto__'' = None \<and>
   jdiv (jmul (Fin 100) (table_rate ''EUR'')) (table_rate ''__proto__'') = Fin 108 \<and>
   convertCurrency (Fin 100) ''EUR'' ''__proto__'' = NaN \<and>
   convertCurrency (Fin 100) ''EUR'' ''XXX'' = Fin 108"
  by (simp add: convertCurrency_eval)

section \<open>Properties of the aggregation and the budgets\<close>

lemmas euro_lunch_eval =
  euro_lunch_def ExpensesSheet_spent_def Dashboard_spent_def
  PlanningTools_totalMonthlyExpenses_def Dashboard_totalMonthlyExpenses_def amountInBase_def
  convertCurrency_def rate_property_def val_or_def ToNumber_def str_or_def num_or_def
  truthy_def EXCHANGE_RATES_TO_USD_def

text \<open>
  C1. The claim: every per-category spend that is compared with a budget limit, and the
  total monthly expenses that feed the savings and projection figures, is the sum of
  the amounts converted into the profile's currency. The dashboard computes both so.
  The budget manager of the expenses sheet and the planning screen add the raw amounts:
  for one expense of 100 EUR in a USD profile they give 100 where the converted sum,
  which the dashboard shows for the same profile, is 108, and the monthly savings that
  feed the projection come out as 4900 against the dashboard's 4892.
\<close>

theorem raw_sums_not_normalized:
  "ExpensesSheet_spent (euro_lunch (Fin 200)) ''Food'' = Fin 100 \<and>
   PlanningTools_totalMonthlyExpenses (euro_lunch (Fin 200)) = Fin 100 \<and>
   Dashboard_spent (euro_lunch (Fin 200)) ''Food'' = Fin 108 \<and>
   Dashboard_totalMonthlyExpenses (euro_lunch (Fin 200)) = Fin 108 \<and>
   convertCurrency (Fin 100) ''EUR'' ''USD'' = Fin 108 \<and>
   monthlySavings (euro_lunch (Fin 200)) = Fin 4900 \<and>
   Dashboard_monthlySavings (euro_lunch (Fin 200)) = Fin 4892"
  by (simp add: euro_lunch_eval monthlySavings_def monthlyGross_def Dashboard_monthlySavings_def
        Math_max_def jsub_def)

lemma jgt_zero_truthy: "jgt limit (Fin 0) \<Longrightarrow> truthy limit"
  by (cases limit) (auto simp: jgt_def truthy_def)

lemma budget_of_positive:
  "budgets p cat = Some limit \<Longrightarrow> jgt limit (Fin 0) \<Longrightarrow> budget_of p cat = limit"
  by (simp add: budget_of_def num_or_def jgt_zero_truthy)

lemma budget_of_zero: "budgets p cat = Some (Fin 0) \<Longrightarrow> budget_of p cat = Fin 0"
  by (simp add: budget_of_def num_or_def truthy_def)

text \<open>
  C7. With a configured monthly limit greater than 0 the usage percentage is
  \<open>spend / limit * 100\<close>, on the dashboard and in the budget manager, each with its own
  spend; with the limit 0 it is exactly 0 whatever the spend.
\<close>

theorem budget_percentage_spec:
  assumes "budgets p cat = Some limit"
  shows "(jgt limit (Fin 0) \<longrightarrow>
            Dashboard_percentage p cat = jmul (jdiv (Dashboard_spent p cat) limit) (Fin 100) \<and>
            ExpensesSheet_percentage p cat =
              jmul (jdiv (ExpensesSheet_spent p cat) limit) (Fin 100)) \<and>
         (limit = Fin 0 \<longrightarrow>
            Dashboard_percentage p cat = Fin 0 \<and> ExpensesSheet_percentage p cat = Fin 0) \<and>
         percentage spent (Fin 0) = Fin 0"
proof (intro conjI impI)
  assume pos: "jgt limit (Fin 0)"
  then have b: "budget_of p cat = limit"
    using assms by (rule budget_of_positive [rotated])
  show "Dashboard_percentage p cat = jmul (jdiv (Dashboard_spent p cat) limit) (Fin 100)"
    using pos by (simp add: Dashboard_percentage_def percentage_def b)
  show "ExpensesSheet_percentage p cat = jmul (jdiv (ExpensesSheet_spent p cat) limit) (Fin 100)"
    using pos by (simp add: ExpensesSheet_percentage_def percentage_def b)
next
  assume "limit = Fin 0"
  then have b: "budget_of p cat = Fin 0"
    using assms by (simp add: budget_of_zero)
  show "Dashboard_percentage p cat = Fin 0"
    by (simp add: Dashboard_percentage_def percentage_def b jgt_def)
  show "ExpensesSheet_percentage p cat = Fin 0"
    by (simp add: ExpensesSheet_percentage_def percentage_def b jgt_def)
next
  show "percentage spent (Fin 0) = Fin 0"
    by (simp add: percentage_def jgt_def)
qed

theorem budget_percentage_spec_witness:
  "Dashboard_percentage (euro_lunch (Fin 200)) ''Food'' = Fin 54 \<and>
   ExpensesSheet_percentage (euro_lunch (Fin 200)) ''Food'' = Fin 50 \<and>
   Dashboard_percentage (euro_lunch (Fin 0)) ''Food'' = Fin 0 \<and>
   ExpensesSheet_percentage (euro_lunch (Fin 0)) ''Food'' = Fin 0"
proof -
  have b: "budgets (euro_lunch l) ''Food'' = Some l" for l
    by (simp add: euro_lunch_def)
  have s: "Dashboard_spent (euro_lunch l) ''Food'' = Fin 108"
          "ExpensesSheet_spent (euro_lunch l) ''Food'' = Fin 100" for l
    by (simp_all add: euro_lunch_eval)
  show ?thesis
    using budget_percentage_spec [OF b [of "Fin 200"]] budget_percentage_spec [OF b [of "Fin 0"]]
    by (simp add: s jgt_def)
qed

section \<open>Properties of the tax estimator\<close>

lemmas tax_eval =
  tax_def effectiveRate_def bracket80_def bracket40_def bracket10_def jgt_def jsub_def

text \<open>
  C3. The claim gives a tax of 10000 and an effective rate of 20 percent for an annual
  income of 50000. The estimator taxes only the slice above each threshold, at 10
  percent from 10000, 20 percent from 40000 and 30 percent from 80000, and nothing below
  10000: for 50000 that is \<open>10000 * 0.20 + 30000 * 0.10 = 5000\<close>, an effective rate of
  10 percent.
\<close>

theorem tax_50000:
  "simulatedAnnualIncome taxInput = Fin 50000 \<Longrightarrow>
     tax taxInput = Fin 5000 \<and> effectiveRate taxInput = Fin 10"
  by (simp add: tax_eval)

theorem tax_50000_witness:
  "simulatedAnnualIncome \<lparr>salary = Fin 45000, other = Fin 5000\<rparr> = Fin 50000 \<and>
   tax \<lparr>salary = Fin 45000, other = Fin 5000\<rparr> = Fin 5000 \<and>
   effectiveRate \<lparr>salary = Fin 45000, other = Fin 5000\<rparr> = Fin 10"
proof -
  have h: "simulatedAnnualIncome \<lparr>salary = Fin 45000, other = Fin 5000\<rparr> = Fin 50000"
    by (simp add: simulatedAnnualIncome_def num_or_def truthy_def)
  show ?thesis using h tax_50000 [OF h] by simp
qed

theorem tax_50000_counterexample:
  "\<not> (tax \<lparr>salary = Fin 50000, other = Fin 0\<rparr> = Fin 10000 \<and>
      effectiveRate \<lparr>salary = Fin 50000, other = Fin 0\<rparr> = Fin 20)"
  by (simp add: tax_eval simulatedAnnualIncome_def num_or_def truthy_def)

section \<open>Properties of the audit log\<close>







section \<open>Properties of the savings goals\<close>

lemma months_code:
  "jadd (jmul (jsub (getFullYear e) (getFullYear t)) (Fin 12)) (jsub (getMonth e) (getMonth t))
     = monthsRemaining t e"
  by (cases e; cases t) (simp_all add: monthsRemaining_def monthIndex_def jsub_def algebra_simps)

text \<open>
  The function in terms of the month difference between the \<open>Date\<close> it builds and today.
\<close>

lemma calculateMonthlyNeed_months:
  "calculateMonthlyNeed tz legacy today target saved dl =
     (if dl = [] then Fin 0
      else if jle (monthsRemaining today (new_Date tz legacy dl)) (Fin 0) then Fin 0
      else jdiv (Math_max (Fin 0) (jsub target saved))
             (monthsRemaining today (new_Date tz legacy dl)))"
  by (simp add: calculateMonthlyNeed_def months_code Let_def)

lemma parse_iso_date_nonempty: "parse_iso_date dl = Some ymd \<Longrightarrow> dl \<noteq> []"
  by (auto simp: parse_iso_date_def split: if_splits)

text \<open>
  At or east of UTC, and for every deadline that is not the first of a month, the \<open>Date\<close>
  has the written year and month, and the function is what the specification says.
\<close>

lemma new_Date_written:
  assumes "parse_iso_date dl = Some (y, m, d)" and "0 \<le> tz \<or> d \<noteq> 1"
  shows "new_Date tz legacy dl = written_Date dl"
  using assms by (auto simp: new_Date_def written_Date_def)

lemma calculateMonthlyNeed_written:
  assumes "parse_iso_date dl = Some (y, m, d)" and "0 \<le> tz \<or> d \<noteq> 1"
  shows "calculateMonthlyNeed tz legacy today target saved dl =
           (if jle (monthsRemaining today (written_Date dl)) (Fin 0) then Fin 0
            else jdiv (Math_max (Fin 0) (jsub target saved))
                   (monthsRemaining today (written_Date dl)))"
  using parse_iso_date_nonempty [OF assms(1)] new_Date_written [OF assms]
  by (simp add: calculateMonthlyNeed_months)

lemma iso_dates:
  "parse_iso_date ''2026-07-01'' = Some (2026, 7, 1)"
  "parse_iso_date ''2025-12-01'' = Some (2025, 12, 1)"
  "parse_iso_date ''2026-07-15'' = Some (2026, 7, 15)"
  by code_simp+

text \<open>
  C5. The claim: for a goal with a deadline, the monthly need is 0 when the
  calendar-month difference between today and the deadline is zero or negative, and
  \<open>max(0, target - saved)\<close> divided by it otherwise, 500 for target 5000, saved 1000 and a
  deadline 8 months out. The code reads the months off a \<open>Date\<close> that was parsed as UTC
  midnight and is read in local time. Five hours west of UTC, in November 2025, the
  deadline 2026-07-01 is 8 calendar months out and the code divides by 7; the deadline
  2025-12-01 is 1 month out and the code returns 0. At UTC, and for the deadline
  2026-07-15 in either zone, it returns 500.
\<close>

theorem monthly_need_west_of_utc:
  "monthsRemaining (LocalDate 2025 10) (written_Date ''2026-07-01'') = Fin 8 \<and>
   calculateMonthlyNeed (- 300) (\<lambda>s. InvalidDate) (LocalDate 2025 10) (Fin 5000) (Fin 1000)
     ''2026-07-01'' = Fin (4000 / 7) \<and>
   calculateMonthlyNeed 0 (\<lambda>s. InvalidDate) (LocalDate 2025 10) (Fin 5000) (Fin 1000)
     ''2026-07-01'' = Fin 500 \<and>
   calculateMonthlyNeed (- 300) (\<lambda>s. InvalidDate) (LocalDate 2025 10) (Fin 5000) (Fin 1000)
     ''2026-07-15'' = Fin 500 \<and>
   monthsRemaining (LocalDate 2025 10) (written_Date ''2025-12-01'') = Fin 1 \<and>
   calculateMonthlyNeed (- 300) (\<lambda>s. InvalidDate) (LocalDate 2025 10) (Fin 5000) (Fin 1000)
     ''2025-12-01'' = Fin 0"
  by (simp add: calculateMonthlyNeed_months new_Date_def written_Date_def iso_dates
        monthsRemaining_def monthIndex_def Math_max_def jsub_def)

lemma not_jgt_Math_min: "\<not> jgt (Math_min a (Fin 100)) (Fin 100)"
  by (cases a) (simp_all add: Math_min_def jgt_def)

text \<open>
  C6. The displayed progress of every goal is \<open>min(saved / target * 100, 100)\<close> and is
  never greater than 100. The stored \<open>savedAmount\<close> is not clamped: a quick-add click
  stores the goal's previous value plus the step, whatever the target.
\<close>

theorem goal_progress_clamped:
  "progress goal = Math_min (jmul (jdiv (savedAmount goal) (targetAmount goal)) (Fin 100)) (Fin 100) \<and>
   \<not> jgt (progress goal) (Fin 100) \<and>
   goals (quickAdd True step goal prev) =
     map (\<lambda>g. if goal_id g = goal_id goal then g\<lparr>savedAmount := jadd (savedAmount goal) step\<rparr> else g)
       (goals prev) \<and>
   (goal \<in> set (goals prev) \<longrightarrow>
      goal\<lparr>savedAmount := jadd (savedAmount goal) step\<rparr> \<in> set (goals (quickAdd True step goal prev)))"
  by (auto simp: progress_def not_jgt_Math_min quickAdd_def handleUpdateGoalProgress_def image_iff intro!: bexI[of _ goal])

theorem goal_progress_clamped_witness:
  "savedAmount (hd (goals (quickAdd True (Fin 100) trip ((euro_lunch (Fin 0))\<lparr>goals := [trip]\<rparr>))))
     = Fin 1050 \<and>
   targetAmount (hd (goals (quickAdd True (Fin 100) trip ((euro_lunch (Fin 0))\<lparr>goals := [trip]\<rparr>))))
     = Fin 1000 \<and>
   progress (trip\<lparr>savedAmount := Fin 1050\<rparr>) = Fin 100 \<and>
   progress trip = Fin 95"
  using goal_progress_clamped [of trip "Fin 100" "(euro_lunch (Fin 0))\<lparr>goals := [trip]\<rparr>"]
    goal_progress_clamped [of "trip\<lparr>savedAmount := Fin 1050\<rparr>" "Fin 100" "(euro_lunch (Fin 0))"]
  by (simp add: trip_def Math_min_def)

lemma handleAddGoal_goals:
  "goals (profile (handleAddGoal sp nowId nowIso st)) = goals (profile st) \<or>
   (\<exists>g. goals (profile (handleAddGoal sp nowId nowIso st)) = goals (profile st) @ [g] \<and>
        truthy (targetAmount g) \<and> targetAmount g = Number (new_targetAmount (newGoal st)))"
  by (simp add: handleAddGoal_def Let_def)

lemma handleAddGoal_truthy:
  assumes "\<forall>g\<in>set (goals (profile st)). truthy (targetAmount g)"
  shows "\<forall>g\<in>set (goals (profile (handleAddGoal sp nowId nowIso st))). truthy (targetAmount g)"
  using assms handleAddGoal_goals [of sp nowId nowIso st] by auto

lemma submitGoals_truthy:
  assumes "\<forall>g\<in>set (goals (profile st)). truthy (targetAmount g)"
  shows "\<forall>g\<in>set (goals (profile (submitGoals sp forms st))). truthy (targetAmount g)"
  using assms
proof (induction forms arbitrary: st)
  case Nil
  then show ?case by (simp add: submitGoals_def)
next
  case (Cons f forms)
  obtain ng nowId nowIso where f: "f = (ng, nowId, nowIso)" by (cases f) auto
  have "\<forall>g\<in>set (goals (profile (st\<lparr>newGoal := ng\<rparr>))). truthy (targetAmount g)"
    using Cons.prems by simp
  then have "\<forall>g\<in>set (goals (profile (handleAddGoal sp nowId nowIso (st\<lparr>newGoal := ng\<rparr>)))).
               truthy (targetAmount g)"
    by (rule handleAddGoal_truthy)
  then have "\<forall>g\<in>set (goals (profile (submitGoals sp forms
               (handleAddGoal sp nowId nowIso (st\<lparr>newGoal := ng\<rparr>))))). truthy (targetAmount g)"
    by (rule Cons.IH)
  then show ?case by (simp add: submitGoals_def f)
qed

text \<open>
  C10. With an empty (or undefined) name, or a target amount that is 0, \<open>NaN\<close> or
  undefined, \<open>handleAddGoal\<close> returns with the state, and so the goals list, unchanged.
  Hence every goal that the form adds to an empty list has a target amount that is
  neither 0 nor \<open>NaN\<close>, and \<open>savedAmount / targetAmount\<close> in its progress is not a division
  by zero: for finite amounts it is the quotient of the two.
\<close>

theorem handleAddGoal_guard:
  "((new_name (newGoal st) = None \<or> new_name (newGoal st) = Some [] \<or>
     new_targetAmount (newGoal st) = None \<or> new_targetAmount (newGoal st) = Some (Fin 0) \<or>
     new_targetAmount (newGoal st) = Some NaN) \<longrightarrow>
      handleAddGoal sp nowId nowIso st = st) \<and>
   (goals (profile st) = [] \<longrightarrow>
      (\<forall>g\<in>set (goals (profile (submitGoals sp forms st))).
         targetAmount g \<noteq> Fin 0 \<and> targetAmount g \<noteq> NaN \<and>
         (\<forall>s t. savedAmount g = Fin s \<and> targetAmount g = Fin t \<longrightarrow>
            t \<noteq> 0 \<and> progress g = Math_min (Fin (s / t * 100)) (Fin 100))))"
proof (intro conjI impI)
  assume "new_name (newGoal st) = None \<or> new_name (newGoal st) = Some [] \<or>
     new_targetAmount (newGoal st) = None \<or> new_targetAmount (newGoal st) = Some (Fin 0) \<or>
     new_targetAmount (newGoal st) = Some NaN"
  then show "handleAddGoal sp nowId nowIso st = st"
    by (auto simp: handleAddGoal_def str_or_def Number_def truthy_def)
next
  assume "goals (profile st) = []"
  then have "\<forall>g\<in>set (goals (profile st)). truthy (targetAmount g)" by simp
  then have "\<forall>g\<in>set (goals (profile (submitGoals sp forms st))). truthy (targetAmount g)"
    by (rule submitGoals_truthy)
  then show "\<forall>g\<in>set (goals (profile (submitGoals sp forms st))).
         targetAmount g \<noteq> Fin 0 \<and> targetAmount g \<noteq> NaN \<and>
         (\<forall>s t. savedAmount g = Fin s \<and> targetAmount g = Fin t \<longrightarrow>
            t \<noteq> 0 \<and> progress g = Math_min (Fin (s / t * 100)) (Fin 100))"
    by (auto simp: truthy_def progress_def)
qed

theorem handleAddGoal_guard_witness:
  "handleAddGoal True ''17'' ''t'' (blank_state\<lparr>newGoal := trip_form (Fin 0)\<rparr>) = blank_state\<lparr>newGoal := trip_form (Fin 0)\<rparr> \<and>
   handleAddGoal True ''17'' ''t'' (blank_state\<lparr>newGoal := trip_form NaN\<rparr>) = blank_state\<lparr>newGoal := trip_form NaN\<rparr> \<and>
   map targetAmount (goals (profile (submitGoals True [(trip_form (Fin 0), ''17'', ''t''), (trip_form (Fin 5000), ''18'', ''u'')] blank_state))) = [Fin 5000]"
proof -
  have g: "goals (profile blank_state) = []"
    by (simp add: blank_state_def euro_lunch_def)
  have e: "map targetAmount (goals (profile (submitGoals True [(trip_form (Fin 0), ''17'', ''t''), (trip_form (Fin 5000), ''18'', ''u'')] blank_state))) = [Fin 5000]"
    by (simp add: submitGoals_def handleAddGoal_def trip_form_def blank_state_def euro_lunch_def str_or_def Number_def truthy_def Let_def)
  show ?thesis
  using handleAddGoal_guard [of "blank_state\<lparr>newGoal := trip_form (Fin 0)\<rparr>" True "''17''" "''t''"]
    handleAddGoal_guard [of "blank_state\<lparr>newGoal := trip_form NaN\<rparr>" True "''17''" "''t''"]
    handleAddGoal_guard [of blank_state True "''17''" "''t''" "[(trip_form (Fin 0), ''17'', ''t''), (trip_form (Fin 5000), ''18'', ''u'')]"]
    g e
  by (simp add: trip_form_def)
qed

section \<open>Properties of the CSV transcoder\<close>

lemma split_at_not_Nil: "split_at sep s \<noteq> []"
  by (induction s) (simp_all add: Let_def)

lemma split_at_no_sep:
  "(\<And>c rest. c \<in> set s \<Longrightarrow> \<not> sep c rest) \<Longrightarrow> split_at sep s = [s]"
  by (induction s) (simp_all add: Let_def)

lemma split_at_append_sep:
  "(\<And>c rest. c \<in> set s \<Longrightarrow> \<not> sep c rest) \<Longrightarrow> sep x t \<Longrightarrow>
     split_at sep (s @ x # t) = s # split_at sep t"
  by (induction s) (simp_all add: Let_def)

lemma split_lines_single: "newline \<notin> set s \<Longrightarrow> split_lines s = [s]"
  unfolding split_lines_def by (rule split_at_no_sep) auto

lemma split_lines_append:
  "newline \<notin> set s \<Longrightarrow> split_lines (s @ newline # t) = s # split_lines t"
  unfolding split_lines_def by (rule split_at_append_sep) auto

lemma split_lines_join:
  "ls \<noteq> [] \<Longrightarrow> (\<And>l. l \<in> set ls \<Longrightarrow> newline \<notin> set l) \<Longrightarrow>
     split_lines (join [newline] ls) = ls"
proof (induction "[newline]" ls rule: join.induct)
  case 1
  then show ?case by simp
next
  case (2 x)
  then show ?case by (simp add: split_lines_single)
next
  case (3 x y ys)
  then show ?case by (simp add: split_lines_append)
qed

lemma split_fields_single: "comma \<notin> set s \<Longrightarrow> split_fields s = [s]"
  unfolding split_fields_def by (rule split_at_no_sep) (auto simp: field_sep_def)

lemma split_fields_append:
  "comma \<notin> set s \<Longrightarrow> even (count_list t dquote) \<Longrightarrow>
     split_fields (s @ comma # t) = s # split_fields t"
  unfolding split_fields_def by (rule split_at_append_sep) (auto simp: field_sep_def)

lemma count_double_quotes: "count_list (double_quotes n) dquote = 2 * count_list n dquote"
  by (induction n) (simp_all add: double_quotes_def)

lemma comma_not_dquote: "comma \<noteq> dquote" "dquote \<noteq> comma"
  by (simp_all add: comma_def dquote_def)

lemma split_fields_doubled:
  "even (count_list t dquote) \<Longrightarrow>
     split_fields (double_quotes n @ dquote # comma # t)
       = (double_quotes n @ [dquote]) # split_fields t"
proof (induction n)
  case Nil
  then show ?case
    by (simp add: double_quotes_def split_fields_def field_sep_def comma_not_dquote Let_def)
next
  case (Cons c n)
  have dq: "double_quotes (c # n) = (if c = dquote then [dquote, dquote] else [c]) @ double_quotes n"
    by (simp add: double_quotes_def)
  have odd: "odd (count_list (double_quotes n @ dquote # comma # t) dquote)"
    using Cons.prems by (simp add: count_double_quotes comma_not_dquote)
  have ih: "split_at field_sep (double_quotes n @ dquote # comma # t)
              = (double_quotes n @ [dquote]) # split_at field_sep t"
    using Cons by (simp add: split_fields_def)
  show ?case
    using odd ih
    by (simp add: dq split_fields_def field_sep_def comma_not_dquote Let_def)
qed

lemma split_fields_csv_name:
  "even (count_list t dquote) \<Longrightarrow>
     split_fields (csv_name n @ comma # t) = csv_name n # split_fields t"
  using split_fields_doubled [of t n]
  by (simp add: csv_name_def split_fields_def field_sep_def comma_not_dquote Let_def)

lemma count_csv_name: "even (count_list (csv_name n) dquote)"
  by (simp add: csv_name_def count_double_quotes)

lemma count_list_0: "x \<notin> set s \<Longrightarrow> count_list s x = 0"
  by (induction s) auto

lemma undouble_Cons: "a \<noteq> dquote \<Longrightarrow> undouble_quotes (a # r) = a # undouble_quotes r"
  by (cases r) simp_all

lemma undouble_double: "undouble_quotes (double_quotes n) = n"
  by (induction n) (simp_all add: double_quotes_def undouble_Cons)

lemma strip_csv_name: "strip_quotes (csv_name n) = double_quotes n"
  by (simp add: strip_quotes_def csv_name_def)

lemma trim_id:
  assumes "s \<noteq> []" "\<not> is_space (hd s)" "\<not> is_space (last s)"
  shows "trim s = s"
proof -
  have 1: "dropWhile is_space s = s"
    using assms(1,2) by (cases s) simp_all
  have 2: "dropWhile is_space (rev s) = rev s"
    using assms(1,3) by (cases "rev s") (simp_all add: last_rev [symmetric] hd_rev)
  show ?thesis by (simp add: trim_def 1 2)
qed

lemma length_trim: "length (trim s) \<le> length (dropWhile is_space s)"
  unfolding trim_def
  by (metis length_dropWhile_le length_rev)

lemma trim_ends:
  assumes "trim s = s" "s \<noteq> []"
  shows "\<not> is_space (hd s) \<and> \<not> is_space (last s)"
proof (intro conjI notI)
  assume "is_space (hd s)"
  then have "length (dropWhile is_space s) < length s"
    using assms(2) by (cases s) (simp_all add: le_imp_less_Suc length_dropWhile_le)
  with length_trim [of s] assms(1) show False by simp
next
  assume l: "is_space (last s)"
  let ?d = "dropWhile is_space s"
  have d: "?d \<noteq> []"
  proof
    assume e: "?d = []"
    have "trim s = rev (dropWhile is_space (rev ?d))" by (simp add: trim_def)
    also have "\<dots> = []" unfolding e by simp
    finally show False using assms by simp
  qed
  have "last (takeWhile is_space s @ ?d) = last ?d"
    using d by (rule last_appendR)
  then have "is_space (hd (rev ?d))"
    using l d by (simp add: hd_rev)
  then have "length (dropWhile is_space (rev ?d)) < length (rev ?d)"
    using d by (cases "rev ?d") (simp_all add: le_imp_less_Suc length_dropWhile_le)
  then have "length (trim s) < length ?d"
    by (simp add: trim_def)
  also have "\<dots> \<le> length s"
    by (rule length_dropWhile_le)
  finally show False
    using assms(1) by simp
qed

lemma not_space_comma: "\<not> is_space comma"
  by (simp add: is_space_def comma_def)

lemma str_or_empty: "str_or x d = [] \<Longrightarrow> d = []"
  by (cases x) (auto simp: str_or_def split: if_splits)

lemma str_or_Some_self: "str_or (Some (str_or x d)) d = str_or x d"
  using str_or_empty [of x d] by (simp add: str_or_def)

lemma set_double_quotes: "set (double_quotes n) \<subseteq> insert dquote (set n)"
  by (induction n) (auto simp: double_quotes_def)

lemma newline_csv_name: "newline \<notin> set n \<Longrightarrow> newline \<notin> set (csv_name n)"
  using set_double_quotes [of n] by (auto simp: csv_name_def newline_def dquote_def)

lemma at_index_simps:
  "at_index (x # xs) 0 = Some x"
  "at_index (x # xs) (Suc i) = at_index xs i"
  "at_index [] i = None"
  by (simp_all add: at_index_def)

lemma trim_row:
  assumes "d \<noteq> []" "trim d = d" "t = [] \<or> \<not> is_space (last t)"
  shows "trim (d @ comma # t) = d @ comma # t"
proof (rule trim_id)
  show "d @ comma # t \<noteq> []" by simp
  show "\<not> is_space (hd (d @ comma # t))"
    using assms(1,2) trim_ends [of d] by simp
  show "\<not> is_space (last (d @ comma # t))"
    using assms(3) not_space_comma by auto
qed

lemma plain_last: "csv_plain s \<Longrightarrow> s = [] \<or> \<not> is_space (last s)"
  using trim_ends [of s] by (auto simp: csv_plain_def)

lemma plain_count: "csv_plain s \<Longrightarrow> count_list s dquote = 0"
  by (simp add: csv_plain_def count_list_0)

lemma import_line_parts:
  assumes "split_fields (trim l) = p0 # p1 # p2 # p3 # rest" "trim l \<noteq> []"
  shows "import_line parseFloat cur newId l =
          (if \<not> isNaN (parseFloat p3) \<and> trim p0 \<noteq> []
           then Inr (Some \<lparr>expense_id = newId, name = trim (undouble_quotes (strip_quotes p1)),
                           amount = parseFloat p3, category = str_or (Some (trim p2)) ''Other'',
                           date = trim p0,
                           currency = Some (str_or (map_option trim (at_index rest 0)) cur)\<rparr>)
           else Inr None)"
  using assms by (simp add: import_line_def at_index_def Let_def)

lemma import_line_sheet_row:
  assumes "round_trips toStr parseFloat cur e"
  shows "import_line parseFloat cur newId
           (join [comma] [date e, csv_name (name e), category e, toStr (amount e),
                          str_or (currency e) cur])
         = Inr (Some \<lparr>expense_id = newId, name = name e, amount = amount e,
                       category = category e, date = date e,
                       currency = Some (str_or (currency e) cur)\<rparr>)"
proof -
  let ?d = "date e" and ?q = "csv_name (name e)" and ?c = "category e"
  let ?a = "toStr (amount e)" and ?u = "str_or (currency e) cur"
  let ?row = "?d @ comma # ?q @ comma # ?c @ comma # ?a @ comma # ?u"
  from assms have d: "?d \<noteq> []" "csv_plain ?d"
    and n: "trim (name e) = name e"
    and c: "?c \<noteq> []" "csv_plain ?c"
    and a: "amount e \<noteq> NaN" "parseFloat ?a = amount e" "csv_plain ?a"
    and u: "csv_plain ?u"
    by (simp_all add: round_trips_def)
  have row: "join [comma] [?d, ?q, ?c, ?a, ?u] = ?row" by simp
  have last_tail: "last (?q @ comma # ?c @ comma # ?a @ comma # ?u) = last (comma # ?u)"
    by simp
  have "trim ?row = ?row"
  proof (rule trim_row)
    show "?d \<noteq> []" by (rule d)
    show "trim ?d = ?d" using d(2) by (simp add: csv_plain_def)
    show "?q @ comma # ?c @ comma # ?a @ comma # ?u = [] \<or>
          \<not> is_space (last (?q @ comma # ?c @ comma # ?a @ comma # ?u))"
      unfolding last_tail using plain_last [OF u] not_space_comma by auto
  qed
  moreover have "split_fields ?row = [?d, ?q, ?c, ?a, ?u]"
  proof -
    have 5: "split_fields ?u = [?u]"
      using u by (simp add: split_fields_single csv_plain_def)
    have 4: "split_fields (?a @ comma # ?u) = [?a, ?u]"
      using a(3) u 5 by (simp add: split_fields_append csv_plain_def plain_count)
    have 3: "split_fields (?c @ comma # ?a @ comma # ?u) = [?c, ?a, ?u]"
      using c(2) a(3) u 4
      by (simp add: split_fields_append csv_plain_def plain_count comma_not_dquote)
    have 2: "split_fields (?q @ comma # ?c @ comma # ?a @ comma # ?u) = [?q, ?c, ?a, ?u]"
      using c(2) a(3) u 3
      by (simp add: split_fields_csv_name plain_count comma_not_dquote)
    show ?thesis
      using d(2) c(2) a(3) u 2 count_csv_name [of "name e"]
      by (simp add: split_fields_append csv_plain_def plain_count comma_not_dquote)
  qed
  ultimately have "split_fields (trim ?row) = [?d, ?q, ?c, ?a, ?u]" "trim ?row \<noteq> []"
    by simp_all
  from import_line_parts [OF this] show ?thesis
    using d c a u n
    by (simp add: row at_index_simps csv_plain_def strip_csv_name undouble_double isNaN_def
          str_or_Some_self)
       (simp add: str_or_def)
qed

lemma import_line_layout_row:
  assumes "round_trips toStr parseFloat cur e"
  shows "import_line parseFloat cur' newId
           (join [comma] [date e, csv_name (name e), category e, toStr (amount e)])
         = Inr (Some \<lparr>expense_id = newId, name = name e, amount = amount e,
                       category = category e, date = date e, currency = Some cur'\<rparr>)"
proof -
  let ?d = "date e" and ?q = "csv_name (name e)" and ?c = "category e"
  let ?a = "toStr (amount e)"
  let ?row = "?d @ comma # ?q @ comma # ?c @ comma # ?a"
  from assms have d: "?d \<noteq> []" "csv_plain ?d"
    and n: "trim (name e) = name e"
    and c: "?c \<noteq> []" "csv_plain ?c"
    and a: "amount e \<noteq> NaN" "parseFloat ?a = amount e" "?a \<noteq> []" "csv_plain ?a"
    by (simp_all add: round_trips_def)
  have row: "join [comma] [?d, ?q, ?c, ?a] = ?row" by simp
  have last_tail: "last (?q @ comma # ?c @ comma # ?a) = last ?a"
    using a(3) by simp
  have "trim ?row = ?row"
  proof (rule trim_row)
    show "?d \<noteq> []" by (rule d)
    show "trim ?d = ?d" using d(2) by (simp add: csv_plain_def)
    show "?q @ comma # ?c @ comma # ?a = [] \<or> \<not> is_space (last (?q @ comma # ?c @ comma # ?a))"
      unfolding last_tail using plain_last [OF a(4)] a(3) by auto
  qed
  moreover have "split_fields ?row = [?d, ?q, ?c, ?a]"
  proof -
    have 4: "split_fields ?a = [?a]"
      using a(4) by (simp add: split_fields_single csv_plain_def)
    have 3: "split_fields (?c @ comma # ?a) = [?c, ?a]"
      using c(2) a(4) 4 by (simp add: split_fields_append csv_plain_def plain_count)
    have 2: "split_fields (?q @ comma # ?c @ comma # ?a) = [?q, ?c, ?a]"
      using c(2) a(4) 3
      by (simp add: split_fields_csv_name plain_count comma_not_dquote)
    show ?thesis
      using d(2) c(2) a(4) 2 count_csv_name [of "name e"]
      by (simp add: split_fields_append csv_plain_def plain_count comma_not_dquote)
  qed
  ultimately have "split_fields (trim ?row) = [?d, ?q, ?c, ?a]" "trim ?row \<noteq> []"
    by simp_all
  from import_line_parts [OF this] show ?thesis
    using d c a n
    by (simp add: row at_index_simps csv_plain_def strip_csv_name undouble_double isNaN_def)
       (simp add: str_or_def)
qed

text \<open>The loop over rows each of which is imported as \<open>mk e\<close>, with the fresh identifier.\<close>

lemma import_loop_rows:
  assumes "\<And>e newId. e \<in> set es \<Longrightarrow>
             import_line parseFloat cur newId (row e) = Inr (Some ((mk e)\<lparr>expense_id := newId\<rparr>))"
  shows "\<exists>news. import_loop parseFloat cur fresh (map row es) acc = Inr (acc @ news) \<and>
           map (\<lambda>x. x\<lparr>expense_id := []\<rparr>) news = map (\<lambda>e. (mk e)\<lparr>expense_id := []\<rparr>) es"
  using assms
proof (induction es arbitrary: acc)
  case Nil
  then show ?case by simp
next
  case (Cons e es)
  let ?x = "(mk e)\<lparr>expense_id := fresh (length acc)\<rparr>"
  have step: "import_loop parseFloat cur fresh (map row (e # es)) acc
                = import_loop parseFloat cur fresh (map row es) (acc @ [?x])"
    using Cons.prems [of e] by simp
  obtain news where news: "import_loop parseFloat cur fresh (map row es) (acc @ [?x])
                             = Inr ((acc @ [?x]) @ news)"
      "map (\<lambda>x. x\<lparr>expense_id := []\<rparr>) news = map (\<lambda>e. (mk e)\<lparr>expense_id := []\<rparr>) es"
    using Cons.IH [of "acc @ [?x]"] Cons.prems by auto
  show ?case
  proof (intro exI conjI)
    show "import_loop parseFloat cur fresh (map row (e # es)) acc = Inr (acc @ (?x # news))"
      using step news(1) by simp
    show "map (\<lambda>x. x\<lparr>expense_id := []\<rparr>) (?x # news)
            = map (\<lambda>e. (mk e)\<lparr>expense_id := []\<rparr>) (e # es)"
      using news(2) by simp
  qed
qed

lemma header_sheet:
  "includes_str (toLowerCase ''Date,Description,Category,Amount,Currency'') ''date''"
  by code_simp

lemma header_layout:
  "includes_str (toLowerCase ''Date,Description,Category,Amount'') ''date''"
  by code_simp

lemma parse_csv_export:
  assumes "newline \<notin> set hdr" "includes_str (toLowerCase hdr) ''date''"
    and "\<And>r. r \<in> set rows \<Longrightarrow> newline \<notin> set r"
  shows "parse_csv parseFloat cur fresh (join [newline] (hdr # rows))
           = import_loop parseFloat cur fresh rows []"
proof -
  have "split_lines (join [newline] (hdr # rows)) = hdr # rows"
    using assms(1,3) by (intro split_lines_join) auto
  then show ?thesis
    using assms(2) by (simp add: parse_csv_def startIndex_def at_index_def)
qed

text \<open>
  C4. The claim: for every transaction list, export followed by import gives back, row
  for row, description, category, amount and currency. The import trims every field,
  drops a row with an empty date or an amount that is not a number, replaces an empty
  category by Other and splits at line breaks, so the claim fails for a description with
  a leading space (see the counterexample below). It holds for the rows described by
  \<open>round_trips\<close>, descriptions with commas and double quotes included: the export of the
  expenses sheet then gives back date, description, category, amount and currency; the
  export of the layout menu, which writes no currency column, gives back date,
  description, category and amount.
\<close>

theorem csv_round_trip:
  assumes "list_all (round_trips toStr parseFloat (profile_currency p)) (expenses p)"
  shows "(\<exists>news. parse_csv parseFloat (profile_currency p) fresh (ExpensesSheet_handleExport toStr p)
                   = Inr news \<and>
            map (\<lambda>x. (date x, name x, category x, amount x, currency x)) news =
            map (\<lambda>e. (date e, name e, category e, amount e,
                       Some (str_or (currency e) (profile_currency p)))) (expenses p)) \<and>
         (\<exists>news. parse_csv parseFloat (profile_currency p) fresh (Layout_handleExport toStr p)
                   = Inr news \<and>
            map (\<lambda>x. (date x, name x, category x, amount x)) news =
            map (\<lambda>e. (date e, name e, category e, amount e)) (expenses p))"
proof -
  let ?cur = "profile_currency p"
  have rt: "round_trips toStr parseFloat ?cur e" if "e \<in> set (expenses p)" for e
    using assms that by (simp add: list_all_iff)
  have nc: "newline \<noteq> comma"
    by (simp add: newline_def comma_def)
  have nl: "newline \<notin> set (date e)" "newline \<notin> set (csv_name (name e))"
      "newline \<notin> set (category e)" "newline \<notin> set (toStr (amount e))"
      "newline \<notin> set (str_or (currency e) ?cur)"
    if "e \<in> set (expenses p)" for e
    using rt [OF that]
    by (simp_all add: round_trips_def csv_plain_def newline_csv_name)
  have sheet: "\<exists>news. parse_csv parseFloat ?cur fresh (ExpensesSheet_handleExport toStr p)
                   = Inr news \<and>
            map (\<lambda>x. (date x, name x, category x, amount x, currency x)) news =
            map (\<lambda>e. (date e, name e, category e, amount e,
                       Some (str_or (currency e) ?cur))) (expenses p)"
  proof -
    let ?row = "\<lambda>e. join [comma] [date e, csv_name (name e), category e, toStr (amount e),
                                  str_or (currency e) ?cur]"
    let ?mk = "\<lambda>e. \<lparr>expense_id = [], name = name e, amount = amount e, category = category e,
                      date = date e, currency = Some (str_or (currency e) ?cur)\<rparr>"
    have csv: "ExpensesSheet_handleExport toStr p
                  = join [newline] (''Date,Description,Category,Amount,Currency''
                                    # map ?row (expenses p))"
      by (simp add: ExpensesSheet_handleExport_def comma_def o_def)
    have "parse_csv parseFloat ?cur fresh (ExpensesSheet_handleExport toStr p)
            = import_loop parseFloat ?cur fresh (map ?row (expenses p)) []"
      unfolding csv
      by (rule parse_csv_export) (use nl nc in \<open>auto simp: newline_def header_sheet\<close>)
    moreover have "\<exists>news. import_loop parseFloat ?cur fresh (map ?row (expenses p)) []
                            = Inr ([] @ news) \<and>
                     map (\<lambda>x. x\<lparr>expense_id := []\<rparr>) news
                       = map (\<lambda>e. (?mk e)\<lparr>expense_id := []\<rparr>) (expenses p)"
      by (rule import_loop_rows) (use import_line_sheet_row [OF rt] in simp)
    ultimately obtain news where
      news: "parse_csv parseFloat ?cur fresh (ExpensesSheet_handleExport toStr p) = Inr news"
        "map (\<lambda>x. x\<lparr>expense_id := []\<rparr>) news = map ?mk (expenses p)"
      by auto
    from news(2) have
      "map (\<lambda>x. (date x, name x, category x, amount x, currency x))
          (map (\<lambda>x. x\<lparr>expense_id := []\<rparr>) news)
       = map (\<lambda>x. (date x, name x, category x, amount x, currency x)) (map ?mk (expenses p))"
      by (rule arg_cong)
    then have "map (\<lambda>x. (date x, name x, category x, amount x, currency x)) news =
               map (\<lambda>e. (date e, name e, category e, amount e,
                          Some (str_or (currency e) ?cur))) (expenses p)"
      by (simp add: o_def)
    with news(1) show ?thesis
      by blast
  qed
  have layout: "\<exists>news. parse_csv parseFloat ?cur fresh (Layout_handleExport toStr p)
                   = Inr news \<and>
            map (\<lambda>x. (date x, name x, category x, amount x)) news =
            map (\<lambda>e. (date e, name e, category e, amount e)) (expenses p)"
  proof -
    let ?row = "\<lambda>e. join [comma] [date e, csv_name (name e), category e, toStr (amount e)]"
    let ?mk = "\<lambda>e. \<lparr>expense_id = [], name = name e, amount = amount e, category = category e,
                      date = date e, currency = Some ?cur\<rparr>"
    have csv: "Layout_handleExport toStr p
                  = join [newline] (''Date,Description,Category,Amount'' # map ?row (expenses p))"
      by (simp add: Layout_handleExport_def comma_def o_def)
    have "parse_csv parseFloat ?cur fresh (Layout_handleExport toStr p)
            = import_loop parseFloat ?cur fresh (map ?row (expenses p)) []"
      unfolding csv
      by (rule parse_csv_export) (use nl nc in \<open>auto simp: newline_def header_layout\<close>)
    moreover have "\<exists>news. import_loop parseFloat ?cur fresh (map ?row (expenses p)) []
                            = Inr ([] @ news) \<and>
                     map (\<lambda>x. x\<lparr>expense_id := []\<rparr>) news
                       = map (\<lambda>e. (?mk e)\<lparr>expense_id := []\<rparr>) (expenses p)"
      by (rule import_loop_rows) (use import_line_layout_row [OF rt] in simp)
    ultimately obtain news where
      news: "parse_csv parseFloat ?cur fresh (Layout_handleExport toStr p) = Inr news"
        "map (\<lambda>x. x\<lparr>expense_id := []\<rparr>) news = map ?mk (expenses p)"
      by auto
    from news(2) have
      "map (\<lambda>x. (date x, name x, category x, amount x))
          (map (\<lambda>x. x\<lparr>expense_id := []\<rparr>) news)
       = map (\<lambda>x. (date x, name x, category x, amount x)) (map ?mk (expenses p))"
      by (rule arg_cong)
    then have "map (\<lambda>x. (date x, name x, category x, amount x)) news =
               map (\<lambda>e. (date e, name e, category e, amount e)) (expenses p)"
      by (simp add: o_def)
    with news(1) show ?thesis
      by blast
  qed
  from sheet layout show ?thesis ..
qed

lemma padded_import:
  "parse_csv sample_parseFloat ''USD'' decimal (ExpensesSheet_handleExport sample_toStr padded)
     = Inr [\<lparr>expense_id = ''0'', name = ''Rent'', amount = Fin 100, category = ''Housing'',
             date = ''2024-01-06'', currency = Some ''USD''\<rparr>]"
  by code_simp

theorem csv_round_trip_counterexample:
  "\<not> (\<exists>news. parse_csv sample_parseFloat ''USD'' decimal
                  (ExpensesSheet_handleExport sample_toStr padded) = Inr news \<and>
               map name news = map name (expenses padded))"
proof
  assume "\<exists>news. parse_csv sample_parseFloat ''USD'' decimal
                  (ExpensesSheet_handleExport sample_toStr padded) = Inr news \<and>
               map name news = map name (expenses padded)"
  then obtain news where
    "Inr news = parse_csv sample_parseFloat ''USD'' decimal
                  (ExpensesSheet_handleExport sample_toStr padded)"
    and names: "map name news = map name (expenses padded)"
    by auto
  then have "map name news = [''Rent'']"
    by (simp add: padded_import)
  with names show False
    by (simp add: padded_def)
qed

lemma cafe_round_trips:
  "list_all (round_trips sample_toStr sample_parseFloat (profile_currency cafe)) (expenses cafe)"
  by code_simp

theorem csv_round_trip_witness:
  "list_all (round_trips sample_toStr sample_parseFloat (profile_currency cafe)) (expenses cafe) \<and>
   (\<exists>news. parse_csv sample_parseFloat (profile_currency cafe) decimal
              (ExpensesSheet_handleExport sample_toStr cafe) = Inr news \<and>
           map (\<lambda>x. (name x, category x, amount x, currency x)) news =
             [([CHR ''a'', CHR '','', dquote, CHR ''b'', dquote], ''Food'', Fin 12.5, Some ''EUR''),
              (''Rent'', ''Housing'', Fin 100, Some ''USD'')])"
proof -
  obtain news where
    1: "parse_csv sample_parseFloat (profile_currency cafe) decimal
          (ExpensesSheet_handleExport sample_toStr cafe) = Inr news"
    and 2: "map (\<lambda>x. (date x, name x, category x, amount x, currency x)) news =
            map (\<lambda>e. (date e, name e, category e, amount e,
                       Some (str_or (currency e) (profile_currency cafe)))) (expenses cafe)"
    using csv_round_trip [OF cafe_round_trips, of decimal] by blast
  from 2 have "map (\<lambda>t. case t of (d, n, c, a, u) \<Rightarrow> (n, c, a, u))
                 (map (\<lambda>x. (date x, name x, category x, amount x, currency x)) news) =
               map (\<lambda>t. case t of (d, n, c, a, u) \<Rightarrow> (n, c, a, u))
                 (map (\<lambda>e. (date e, name e, category e, amount e,
                       Some (str_or (currency e) (profile_currency cafe)))) (expenses cafe))"
    by (rule arg_cong)
  then have 3: "map (\<lambda>x. (name x, category x, amount x, currency x)) news =
             [([CHR ''a'', CHR '','', dquote, CHR ''b'', dquote], ''Food'', Fin 12.5, Some ''EUR''),
              (''Rent'', ''Housing'', Fin 100, Some ''USD'')]"
    by (simp add: o_def cafe_def str_or_def)
  show ?thesis
  proof (intro conjI exI)
    show "list_all (round_trips sample_toStr sample_parseFloat (profile_currency cafe))
            (expenses cafe)"
      by (rule cafe_round_trips)
    show "parse_csv sample_parseFloat (profile_currency cafe) decimal
            (ExpensesSheet_handleExport sample_toStr cafe) = Inr news"
      by (rule 1)
    show "map (\<lambda>x. (name x, category x, amount x, currency x)) news =
             [([CHR ''a'', CHR '','', dquote, CHR ''b'', dquote], ''Food'', Fin 12.5, Some ''EUR''),
              (''Rent'', ''Housing'', Fin 100, Some ''USD'')]"
      by (rule 3)
  qed
qed

text \<open>
  The export of the layout menu writes no currency column: the expense of the sample
  profile that was tagged EUR comes back with the profile's currency.
\<close>

lemma layout_export_drops_currency:
  "parse_csv sample_parseFloat ''USD'' decimal (Layout_handleExport sample_toStr cafe)
     = Inr [\<lparr>expense_id = ''0'', name = [CHR ''a'', CHR '','', dquote, CHR ''b'', dquote],
             amount = Fin 12.5, category = ''Food'', date = ''2024-01-05'',
             currency = Some ''USD''\<rparr>,
            \<lparr>expense_id = ''1'', name = ''Rent'', amount = Fin 100, category = ''Housing'',
             date = ''2024-01-06'', currency = Some ''USD''\<rparr>]"
  by code_simp











end
